theory Spec2Isabelle
  imports Main "HOL-Library.AList" "HOL-Library.Multiset"
begin

section \<open>Shared schema (shared/schema.ts)\<close>

text \<open>
  Identifiers produced by \<^verbatim>\<open>randomUUID()\<close> (connection identifiers, room identifiers,
  audit-log identifiers, message identifiers) are modelled by natural numbers drawn from a
  counter kept in the state, so that two calls never return the same value. In the source
  they are non-empty strings, hence truthy: a test such as \<^verbatim>\<open>roomId ? ... : undefined\<close>
  succeeds exactly when the identifier is defined. Instants (\<^verbatim>\<open>new Date()\<close>) are
  integers, the milliseconds of \<^verbatim>\<open>getTime()\<close>; strings are lists of characters, one
  per UTF-16 code unit of the source string. Console output is not modelled.
\<close>

type_synonym uuid = nat

record SocketUser =
  socketId :: uuid
  joinedAt :: int
  ipAddress :: string
  userAgent :: string

record ChatRoom =
  room_id :: uuid
  users :: "uuid list"
  createdAt :: int
  isVideoCall :: "bool option"

record AuditLog =
  log_id :: uuid
  log_socketId :: uuid
  log_partnerSocketId :: "uuid option"
  log_action :: string
  log_ipAddress :: "string option"
  log_userAgent :: "string option"
  log_timestamp :: int
  log_details :: "string option"

record InsertAuditLog =
  ins_socketId :: uuid
  ins_partnerSocketId :: "uuid option"
  ins_action :: string
  ins_ipAddress :: "string option"
  ins_userAgent :: "string option"
  ins_details :: "string option"

record ChatMessage =
  msg_id :: uuid
  msg_content :: string
  msg_timestamp :: int
  isOwn :: bool

record WebRTCSignal =
  sig_type :: string
  sig_data :: string
  sig_from :: "uuid option"
  sig_to :: "uuid option"

section \<open>The server's world: sockets, outbound events, timers\<close>

datatype ReadyState = CONNECTING | OPEN | CLOSING | CLOSED

record ExtendedWebSocket =
  ws_socketId :: uuid
  readyState :: ReadyState

datatype out_event =
    Connected uuid
  | Waiting string
  | Paired uuid string
  | VideoWaiting string
  | VideoPaired uuid bool string
  | WebrtcSignalOut "WebRTCSignal option" uuid uuid
  | MessageOut ChatMessage
  | MessageSent ChatMessage
  | PartnerDisconnected string
  | ReportSubmitted string
  | ErrorOut string

text \<open>
  A callback handed to \<^verbatim>\<open>setTimeout\<close>: a delayed call of one of the two matchers with
  its avoid list. (The 100 ms timer of the video matcher only writes to the console and is
  left out.)
\<close>

datatype timer_task = MatchText "uuid list" | MatchVideo "uuid list"

text \<open>
  The state: the six fields of \<^verbatim>\<open>MemStorage\<close> first (a JavaScript \<^verbatim>\<open>Map\<close> that is
  iterated keeps insertion order, so \<open>auditLogs\<close> is an association list; the other maps
  are only looked up), then the identifier counter, the clock, the sockets tracked by
  \<^verbatim>\<open>wss.clients\<close>, every event sent so far with the connection it was sent on, and the
  pending timers with their delays.
\<close>

record server =
  auditLogs :: "(uuid \<times> AuditLog) list"
  waitingQueue :: "SocketUser list"
  videoWaitingQueue :: "SocketUser list"
  chatRooms :: "uuid \<rightharpoonup> ChatRoom"
  userRoomMap :: "uuid \<rightharpoonup> uuid"
  webrtcState :: "uuid \<rightharpoonup> string"
  nextUuid :: nat
  now :: int
  clients :: "ExtendedWebSocket list"
  outbox :: "(uuid \<times> out_event) list"
  timers :: "(nat \<times> timer_task) list"

definition initial :: server where
  "initial = \<lparr> auditLogs = [], waitingQueue = [], videoWaitingQueue = [],
     chatRooms = Map.empty, userRoomMap = Map.empty, webrtcState = Map.empty,
     nextUuid = 0, now = 0, clients = [], outbox = [], timers = [] \<rparr>"

definition randomUUID :: "server \<Rightarrow> uuid \<times> server" where
  "randomUUID s = (nextUuid s, s\<lparr>nextUuid := Suc (nextUuid s)\<rparr>)"

definition send :: "uuid \<Rightarrow> out_event \<Rightarrow> server \<Rightarrow> server" where
  "send ws ev s = s\<lparr>outbox := outbox s @ [(ws, ev)]\<rparr>"

definition setTimeout :: "timer_task \<Rightarrow> nat \<Rightarrow> server \<Rightarrow> server" where
  "setTimeout task delay s = s\<lparr>timers := timers s @ [(delay, task)]\<rparr>"

text \<open>Decimal text of an identifier, for the template literals of the audit details.\<close>

fun uuid_text :: "uuid \<Rightarrow> string" where
  "uuid_text n =
     (if n < 10 then [char_of (48 + n)]
      else uuid_text (n div 10) @ [char_of (48 + n mod 10)])"

declare uuid_text.simps [simp del]

section \<open>MemStorage (server/storage.ts)\<close>

definition createAuditLog :: "InsertAuditLog \<Rightarrow> server \<Rightarrow> AuditLog \<times> server" where
  "createAuditLog insertLog s =
     (let (ident, s1) = randomUUID s;
          log = \<lparr> log_id = ident,
                  log_socketId = ins_socketId insertLog,
                  log_partnerSocketId = ins_partnerSocketId insertLog,
                  log_action = ins_action insertLog,
                  log_ipAddress = ins_ipAddress insertLog,
                  log_userAgent = ins_userAgent insertLog,
                  log_timestamp = now s1,
                  log_details = ins_details insertLog \<rparr>
      in (log, s1\<lparr>auditLogs := AList.update ident log (auditLogs s1)\<rparr>))"

text \<open>
  \<^verbatim>\<open>slice(0, limit)\<close>: a negative end counts from the end of the array.
\<close>

definition slice0 :: "'a list \<Rightarrow> int \<Rightarrow> 'a list" where
  "slice0 xs lim =
     (if lim < 0 then take (nat (int (length xs) + lim)) xs else take (nat lim) xs)"

text \<open>
  \<^verbatim>\<open>sort((a, b) => b.timestamp.getTime() - a.timestamp.getTime())\<close>: the sort of the
  language is stable, and so is \<open>sort_key\<close>; the key is the negated instant.
\<close>

definition getAuditLogs :: "int \<Rightarrow> server \<Rightarrow> AuditLog list" where
  "getAuditLogs limit s =
     slice0 (sort_key (\<lambda>a. - log_timestamp a) (map snd (auditLogs s))) limit"

definition getAuditLogs_default :: "server \<Rightarrow> AuditLog list" where
  "getAuditLogs_default s = getAuditLogs 100 s"

definition removeUserFromQueue :: "uuid \<Rightarrow> server \<Rightarrow> server" where
  "removeUserFromQueue sid s =
     s\<lparr>waitingQueue := filter (\<lambda>user. socketId user \<noteq> sid) (waitingQueue s)\<rparr>"

definition addUserToQueue :: "SocketUser \<Rightarrow> server \<Rightarrow> server" where
  "addUserToQueue user s =
     (let s1 = removeUserFromQueue (socketId user) s
      in s1\<lparr>waitingQueue := waitingQueue s1 @ [user]\<rparr>)"

definition getWaitingUsers :: "server \<Rightarrow> SocketUser list" where
  "getWaitingUsers s = waitingQueue s"

definition removeUserFromVideoQueue :: "uuid \<Rightarrow> server \<Rightarrow> server" where
  "removeUserFromVideoQueue sid s =
     s\<lparr>videoWaitingQueue := filter (\<lambda>user. socketId user \<noteq> sid) (videoWaitingQueue s)\<rparr>"

definition addUserToVideoQueue :: "SocketUser \<Rightarrow> server \<Rightarrow> server" where
  "addUserToVideoQueue user s =
     (let s1 = removeUserFromVideoQueue (socketId user) s
      in s1\<lparr>videoWaitingQueue := videoWaitingQueue s1 @ [user]\<rparr>)"

definition getWaitingVideoUsers :: "server \<Rightarrow> SocketUser list" where
  "getWaitingVideoUsers s = videoWaitingQueue s"

definition createRoom :: "SocketUser \<Rightarrow> SocketUser \<Rightarrow> server \<Rightarrow> ChatRoom \<times> server" where
  "createRoom user1 user2 s =
     (let (roomId, s0) = randomUUID s;
          room = \<lparr> room_id = roomId, users = [socketId user1, socketId user2],
                   createdAt = now s0, isVideoCall = None \<rparr>;
          s1 = s0\<lparr>chatRooms := (chatRooms s0)(roomId \<mapsto> room)\<rparr>;
          s2 = s1\<lparr>userRoomMap := (userRoomMap s1)(socketId user1 \<mapsto> roomId)\<rparr>;
          s3 = s2\<lparr>userRoomMap := (userRoomMap s2)(socketId user2 \<mapsto> roomId)\<rparr>;
          s4 = removeUserFromQueue (socketId user1) s3;
          s5 = removeUserFromQueue (socketId user2) s4;
          s6 = removeUserFromVideoQueue (socketId user1) s5;
          s7 = removeUserFromVideoQueue (socketId user2) s6
      in (room, s7))"

definition getRoomByUser :: "uuid \<Rightarrow> server \<Rightarrow> ChatRoom option" where
  "getRoomByUser sid s =
     (case userRoomMap s sid of None \<Rightarrow> None | Some roomId \<Rightarrow> chatRooms s roomId)"

definition clearWebRTCState :: "uuid \<Rightarrow> server \<Rightarrow> server" where
  "clearWebRTCState roomId s = s\<lparr>webrtcState := (webrtcState s)(roomId := None)\<rparr>"

definition removeRoom :: "uuid \<Rightarrow> server \<Rightarrow> server" where
  "removeRoom roomId s =
     (case chatRooms s roomId of
        None \<Rightarrow> s
      | Some room \<Rightarrow>
          (let s1 = fold (\<lambda>sid t. t\<lparr>userRoomMap := (userRoomMap t)(sid := None)\<rparr>)
                      (users room) s;
               s2 = s1\<lparr>chatRooms := (chatRooms s1)(roomId := None)\<rparr>
           in clearWebRTCState roomId s2))"

definition removeUserFromRoom :: "uuid \<Rightarrow> server \<Rightarrow> server" where
  "removeUserFromRoom sid s =
     (let s1 = (case userRoomMap s sid of
                  None \<Rightarrow> s
                | Some roomId \<Rightarrow>
                    (case chatRooms s roomId of
                       None \<Rightarrow> s
                     | Some room \<Rightarrow> removeRoom roomId s));
          s2 = removeUserFromQueue sid s1
      in removeUserFromVideoQueue sid s2)"

section \<open>The socket server (server/routes.ts)\<close>

text \<open>
  A handler either returns or throws; a thrown exception carries the state reached when it
  was thrown, since the \<^verbatim>\<open>catch\<close> of the dispatcher undoes nothing. Each handler runs
  from its call to its return as one step: the \<^verbatim>\<open>await\<close>s of the source wait on storage
  calls that complete at once.
\<close>

datatype outcome = Returned server | Thrown server

definition truthy :: "bool option \<Rightarrow> bool" where
  "truthy b = (b = Some True)"

definition findWebSocketBySocketId :: "uuid \<Rightarrow> server \<Rightarrow> ExtendedWebSocket option" where
  "findWebSocketBySocketId sid s =
     find (\<lambda>client. ws_socketId client = sid \<and> readyState client = OPEN) (clients s)"

text \<open>
  The choice of \<^verbatim>\<open>user1\<close> and \<^verbatim>\<open>user2\<close>, the same text in both matchers; it is
  evaluated only under \<^verbatim>\<open>waitingUsers.length >= 2\<close>. The second component is \<open>None\<close>
  when \<^verbatim>\<open>find\<close> returns \<^verbatim>\<open>undefined\<close>.
\<close>

definition selectUsers :: "SocketUser list \<Rightarrow> uuid list \<Rightarrow> SocketUser \<times> SocketUser option" where
  "selectUsers waitingUsers avoidPairing =
     (if length waitingUsers > 2 \<and> length avoidPairing = 2 then
        (let availableUsers =
               filter (\<lambda>user. socketId user \<notin> set avoidPairing) waitingUsers
         in if length availableUsers \<ge> 2 then
              (availableUsers ! 0, Some (availableUsers ! 1))
            else if length availableUsers = 1 then
              (availableUsers ! 0,
               find (\<lambda>user. socketId user \<in> set avoidPairing) waitingUsers)
            else (waitingUsers ! 0, Some (waitingUsers ! 1)))
      else (waitingUsers ! 0, Some (waitingUsers ! 1)))"

definition pairedLog :: "string \<Rightarrow> string \<Rightarrow> SocketUser \<Rightarrow> SocketUser \<Rightarrow> InsertAuditLog" where
  "pairedLog act prefix u v =
     \<lparr> ins_socketId = socketId u, ins_partnerSocketId = Some (socketId v),
       ins_action = act, ins_ipAddress = Some (ipAddress u),
       ins_userAgent = Some (userAgent u),
       ins_details = Some (prefix @ uuid_text (socketId v)) \<rparr>"

definition tryMatchTextUsersWithPreference :: "uuid list \<Rightarrow> server \<Rightarrow> outcome" where
  "tryMatchTextUsersWithPreference avoidPairing s =
     (let waitingUsers = getWaitingUsers s
      in if length waitingUsers \<ge> 2 then
           (case selectUsers waitingUsers avoidPairing of
              (user1, None) \<Rightarrow> Thrown s
            | (user1, Some user2) \<Rightarrow>
                (let (room, s1) = createRoom user1 user2 s
                 in case (findWebSocketBySocketId (socketId user1) s1,
                          findWebSocketBySocketId (socketId user2) s1) of
                      (Some ws1, Some ws2) \<Rightarrow>
                        (let s2 = send (ws_socketId ws1)
                                    (Paired (room_id room)
                                       ''You have been connected to a stranger!'') s1;
                             s3 = send (ws_socketId ws2)
                                    (Paired (room_id room)
                                       ''You have been connected to a stranger!'') s2;
                             s4 = snd (createAuditLog
                                    (pairedLog ''paired'' ''Paired with '' user1 user2) s3);
                             s5 = snd (createAuditLog
                                    (pairedLog ''paired'' ''Paired with '' user2 user1) s4)
                         in Returned s5)
                    | _ \<Rightarrow> Returned s1))
         else Returned s)"

definition tryMatchVideoUsersWithPreference :: "uuid list \<Rightarrow> server \<Rightarrow> outcome" where
  "tryMatchVideoUsersWithPreference avoidPairing s =
     (let waitingUsers = getWaitingVideoUsers s
      in if length waitingUsers \<ge> 2 then
           (case selectUsers waitingUsers avoidPairing of
              (user1, None) \<Rightarrow> Thrown s
            | (user1, Some user2) \<Rightarrow>
                (let (room0, s0) = createRoom user1 user2 s;
                     room = room0\<lparr>isVideoCall := Some True\<rparr>;
                     s1 = s0\<lparr>chatRooms := (chatRooms s0)(room_id room0 \<mapsto> room)\<rparr>
                 in case (findWebSocketBySocketId (socketId user1) s1,
                          findWebSocketBySocketId (socketId user2) s1) of
                      (Some ws1, Some ws2) \<Rightarrow>
                        (let s2 = send (ws_socketId ws1)
                                    (VideoPaired (room_id room) True
                                       ''Connected for video chat! Preparing video...'') s1;
                             s3 = send (ws_socketId ws2)
                                    (VideoPaired (room_id room) False
                                       ''Connected for video chat! Preparing video...'') s2;
                             s4 = snd (createAuditLog
                                    (pairedLog ''video_paired'' ''Video paired with ''
                                       user1 user2) s3);
                             s5 = snd (createAuditLog
                                    (pairedLog ''video_paired'' ''Video paired with ''
                                       user2 user1) s4)
                         in Returned s5)
                    | _ \<Rightarrow> Returned s1))
         else Returned s)"

definition handleJoinQueue :: "uuid \<Rightarrow> string \<Rightarrow> string \<Rightarrow> server \<Rightarrow> outcome" where
  "handleJoinQueue sid ip ua s =
     (let user = \<lparr> socketId = sid, joinedAt = now s, ipAddress = ip, userAgent = ua \<rparr>;
          s1 = removeUserFromRoom sid s;
          s2 = addUserToQueue user s1;
          s3 = snd (createAuditLog
                 \<lparr> ins_socketId = sid, ins_partnerSocketId = None,
                   ins_action = ''join_queue'', ins_ipAddress = Some ip,
                   ins_userAgent = Some ua,
                   ins_details = Some ''User joined waiting queue'' \<rparr> s2)
      in case tryMatchTextUsersWithPreference [] s3 of
           Thrown s4 \<Rightarrow> Thrown s4
         | Returned s4 \<Rightarrow>
             (case getRoomByUser sid s4 of
                None \<Rightarrow> Returned (send sid
                          (Waiting ''Looking for someone to chat with...'') s4)
              | Some userRoom \<Rightarrow> Returned s4))"

definition handleStartVideo :: "uuid \<Rightarrow> string \<Rightarrow> string \<Rightarrow> server \<Rightarrow> outcome" where
  "handleStartVideo sid ip ua s =
     (let user = \<lparr> socketId = sid, joinedAt = now s, ipAddress = ip, userAgent = ua \<rparr>;
          s1 = removeUserFromRoom sid s;
          s2 = addUserToVideoQueue user s1;
          s3 = snd (createAuditLog
                 \<lparr> ins_socketId = sid, ins_partnerSocketId = None,
                   ins_action = ''join_video_queue'', ins_ipAddress = Some ip,
                   ins_userAgent = Some ua,
                   ins_details = Some ''User joined video chat waiting queue'' \<rparr> s2)
      in case tryMatchVideoUsersWithPreference [] s3 of
           Thrown s4 \<Rightarrow> Thrown s4
         | Returned s4 \<Rightarrow>
             (case getRoomByUser sid s4 of
                None \<Rightarrow> Returned (send sid
                          (VideoWaiting ''Looking for someone to video chat with...'') s4)
              | Some userRoom \<Rightarrow> Returned s4))"

text \<open>
  \<^verbatim>\<open>content\<close> is \<open>None\<close> when the payload has no string under that key: the call of
  \<^verbatim>\<open>substring\<close> then throws, after the message identifier was drawn.
\<close>

definition handleSendMessage :: "uuid \<Rightarrow> string option \<Rightarrow> server \<Rightarrow> outcome" where
  "handleSendMessage sid content s =
     (case getRoomByUser sid s of
        None \<Rightarrow> Returned (send sid (ErrorOut ''You are not in a chat room'') s)
      | Some room \<Rightarrow>
          (case find (\<lambda>i. i \<noteq> sid) (users room) of
             None \<Rightarrow> Returned (send sid (ErrorOut ''No partner found'') s)
           | Some partnerId \<Rightarrow>
               (let gone = Returned (removeUserFromRoom sid
                             (send sid
                                (PartnerDisconnected ''Your partner has disconnected'') s))
                in case findWebSocketBySocketId partnerId s of
                     None \<Rightarrow> gone
                   | Some partnerWs \<Rightarrow>
                       if readyState partnerWs \<noteq> OPEN then gone
                       else
                         (let (mid, s1) = randomUUID s
                          in case content of
                               None \<Rightarrow> Thrown s1
                             | Some c \<Rightarrow>
                                 (let messageData =
                                        \<lparr> msg_id = mid, msg_content = take 1000 c,
                                          msg_timestamp = now s1, isOwn = False \<rparr>;
                                      s2 = send (ws_socketId partnerWs)
                                             (MessageOut messageData) s1;
                                      s3 = send sid
                                             (MessageSent (messageData\<lparr>isOwn := True\<rparr>)) s2;
                                      s4 = snd (createAuditLog
                                             \<lparr> ins_socketId = sid,
                                               ins_partnerSocketId = Some partnerId,
                                               ins_action = ''message'',
                                               ins_ipAddress = None, ins_userAgent = None,
                                               ins_details = Some ''Message sent'' \<rparr> s3)
                                  in Returned s4)))))"

text \<open>
  \<^verbatim>\<open>videoMode\<close> is \<open>None\<close> when the payload has no such key (\<^verbatim>\<open>undefined\<close>), and its
  truth value otherwise. \<open>requeueBoth\<close> is the block of \<^verbatim>\<open>handleNextUser\<close> under
  \<^verbatim>\<open>if (partnerId)\<close> that puts both users back into a queue, and \<open>requeuePartner\<close>
  further down the block of \<^verbatim>\<open>handleDisconnect\<close> that runs when the partner's socket
  is open.
\<close>

definition requeueBoth ::
  "bool \<Rightarrow> uuid \<Rightarrow> uuid \<Rightarrow> string \<Rightarrow> string \<Rightarrow> server \<Rightarrow> server" where
  "requeueBoth wasVideoCall sid partnerId ip ua s =
     (let partnerWs = findWebSocketBySocketId partnerId s;
          currentUser = \<lparr> socketId = sid, joinedAt = now s,
                          ipAddress = ip, userAgent = ua \<rparr>;
          partnerUser = \<lparr> socketId = partnerId, joinedAt = now s,
                          ipAddress = [], userAgent = [] \<rparr>
      in if wasVideoCall then
           (let s1 = addUserToVideoQueue currentUser s;
                s2 = addUserToVideoQueue partnerUser s1;
                s3 = send sid
                       (VideoWaiting ''Looking for someone new to video chat with...'') s2;
                s4 = (case partnerWs of
                        None \<Rightarrow> s3
                      | Some pw \<Rightarrow>
                          if readyState pw = OPEN then
                            send (ws_socketId pw)
                              (VideoWaiting
                                 ''Looking for someone new to video chat with...'') s3
                          else s3)
            in setTimeout (MatchVideo [sid, partnerId]) 1000 s4)
         else
           (let s1 = addUserToQueue currentUser s;
                s2 = addUserToQueue partnerUser s1;
                s3 = send sid (Waiting ''Looking for someone new to chat with...'') s2;
                s4 = (case partnerWs of
                        None \<Rightarrow> s3
                      | Some pw \<Rightarrow>
                          if readyState pw = OPEN then
                            send (ws_socketId pw)
                              (Waiting ''Looking for someone new to chat with...'') s3
                          else s3)
            in setTimeout (MatchText [sid, partnerId]) 1000 s4))"

definition handleNextUser ::
  "uuid \<Rightarrow> string \<Rightarrow> string \<Rightarrow> bool option \<Rightarrow> server \<Rightarrow> outcome" where
  "handleNextUser sid ip ua videoMode s =
     (case getRoomByUser sid s of
        None \<Rightarrow>
          (let isInTextQueue = list_ex (\<lambda>user. socketId user = sid) (getWaitingUsers s);
               isInVideoQueue =
                 list_ex (\<lambda>user. socketId user = sid) (getWaitingVideoUsers s)
           in if isInTextQueue \<or> isInVideoQueue then
                (if truthy videoMode \<or> isInVideoQueue then
                   Returned (send sid
                     (VideoWaiting ''Still looking for someone to video chat with...'') s)
                 else
                   Returned (send sid
                     (Waiting ''Still looking for someone to chat with...'') s))
              else if truthy videoMode then handleStartVideo sid ip ua s
              else handleJoinQueue sid ip ua s)
      | Some room \<Rightarrow>
          (let wasVideoCall = (case videoMode of
                                 None \<Rightarrow> truthy (isVideoCall room)
                               | Some v \<Rightarrow> v);
               partnerId = find (\<lambda>i. i \<noteq> sid) (users room);
               s1 = snd (createAuditLog
                      \<lparr> ins_socketId = sid, ins_partnerSocketId = partnerId,
                        ins_action = ''next_user'', ins_ipAddress = Some ip,
                        ins_userAgent = Some ua,
                        ins_details = Some ''User clicked next to find new partner'' \<rparr> s);
               s2 = (if wasVideoCall \<and> partnerId \<noteq> None
                     then clearWebRTCState (room_id room) s1 else s1);
               s3 = removeUserFromRoom sid s2
           in case partnerId of
                Some p \<Rightarrow>
                  Returned (requeueBoth wasVideoCall sid p ip ua (removeUserFromRoom p s3))
              | None \<Rightarrow>
                  if wasVideoCall then handleStartVideo sid ip ua s3
                  else handleJoinQueue sid ip ua s3))"

text \<open>
  \<^verbatim>\<open>signal\<close> is \<open>None\<close> when the payload has no object under that key: the spread then
  copies nothing, and reading \<^verbatim>\<open>signal.type\<close> for the audit record throws after the
  relay.
\<close>

definition handleWebRTCSignal :: "uuid \<Rightarrow> WebRTCSignal option \<Rightarrow> server \<Rightarrow> outcome" where
  "handleWebRTCSignal sid signal s =
     (let notVideo = Returned (send sid (ErrorOut ''Not in a video chat room'') s)
      in case getRoomByUser sid s of
           None \<Rightarrow> notVideo
         | Some room \<Rightarrow>
             if \<not> truthy (isVideoCall room) then notVideo
             else
               (case find (\<lambda>i. i \<noteq> sid) (users room) of
                  None \<Rightarrow> Returned (send sid (ErrorOut ''No video partner found'') s)
                | Some partnerId \<Rightarrow>
                    (let gone = Returned (removeUserFromRoom sid
                                  (send sid
                                     (PartnerDisconnected
                                        ''Your video partner has disconnected'') s))
                     in case findWebSocketBySocketId partnerId s of
                          None \<Rightarrow> gone
                        | Some partnerWs \<Rightarrow>
                            if readyState partnerWs \<noteq> OPEN then gone
                            else
                              (let s1 = send (ws_socketId partnerWs)
                                          (WebrtcSignalOut signal sid partnerId) s
                               in case signal of
                                    None \<Rightarrow> Thrown s1
                                  | Some g \<Rightarrow>
                                      Returned (snd (createAuditLog
                                        \<lparr> ins_socketId = sid,
                                          ins_partnerSocketId = Some partnerId,
                                          ins_action = ''webrtc_signal'',
                                          ins_ipAddress = None, ins_userAgent = None,
                                          ins_details =
                                            Some (''WebRTC signal type: '' @ sig_type g) \<rparr>
                                        s1))))))"

definition handleReportUser :: "uuid \<Rightarrow> string \<Rightarrow> string \<Rightarrow> server \<Rightarrow> outcome" where
  "handleReportUser sid ip ua s =
     (case getRoomByUser sid s of
        None \<Rightarrow> Returned (send sid (ErrorOut ''No active chat to report'') s)
      | Some room \<Rightarrow>
          (let s1 = (case find (\<lambda>i. i \<noteq> sid) (users room) of
                       None \<Rightarrow> s
                     | Some partnerId \<Rightarrow>
                         snd (createAuditLog
                           \<lparr> ins_socketId = sid, ins_partnerSocketId = Some partnerId,
                             ins_action = ''report'', ins_ipAddress = Some ip,
                             ins_userAgent = Some ua,
                             ins_details =
                               Some (''User reported partner '' @ uuid_text partnerId
                                     @ '' for inappropriate behavior'') \<rparr> s));
               s2 = send sid (ReportSubmitted ''Report submitted successfully'') s1
           in handleNextUser sid ip ua None s2))"

definition requeuePartner :: "bool \<Rightarrow> uuid \<Rightarrow> ExtendedWebSocket \<Rightarrow> server \<Rightarrow> server" where
  "requeuePartner video partnerId partnerWs s =
     (let s1 = send (ws_socketId partnerWs)
                 (PartnerDisconnected
                    (if video then ''Your video partner has disconnected''
                     else ''Your partner has disconnected'')) s;
          partnerUser = \<lparr> socketId = partnerId, joinedAt = now s1,
                          ipAddress = [], userAgent = [] \<rparr>
      in if video then
           (let s2 = addUserToVideoQueue partnerUser s1;
                s3 = send (ws_socketId partnerWs)
                       (VideoWaiting ''Looking for someone to video chat with...'') s2
            in setTimeout (MatchVideo []) 500 s3)
         else
           (let s2 = addUserToQueue partnerUser s1;
                s3 = send (ws_socketId partnerWs)
                       (Waiting ''Looking for someone to chat with...'') s2
            in setTimeout (MatchText []) 500 s3))"

definition handleDisconnect :: "uuid \<Rightarrow> string \<Rightarrow> string \<Rightarrow> server \<Rightarrow> server" where
  "handleDisconnect sid ip ua s =
     (let s4 =
            (case getRoomByUser sid s of
               None \<Rightarrow> s
             | Some room \<Rightarrow>
                 (let video = truthy (isVideoCall room);
                      s1 = (if video then clearWebRTCState (room_id room) s else s)
                  in case find (\<lambda>i. i \<noteq> sid) (users room) of
                       None \<Rightarrow> s1
                     | Some partnerId \<Rightarrow>
                         (let s2 = (case findWebSocketBySocketId partnerId s1 of
                                      None \<Rightarrow> s1
                                    | Some partnerWs \<Rightarrow>
                                        if readyState partnerWs = OPEN
                                        then requeuePartner video partnerId partnerWs s1
                                        else s1)
                          in snd (createAuditLog
                               \<lparr> ins_socketId = sid, ins_partnerSocketId = Some partnerId,
                                 ins_action = ''disconnect'', ins_ipAddress = Some ip,
                                 ins_userAgent = Some ua,
                                 ins_details = Some ''User disconnected from chat'' \<rparr> s2))))
      in removeUserFromRoom sid s4)"

subsection \<open>The dispatcher and the events of the server\<close>

text \<open>
  What arrives on a socket: text that \<^verbatim>\<open>JSON.parse\<close> rejects, the JSON value
  \<^verbatim>\<open>null\<close> (reading its \<^verbatim>\<open>type\<close> throws), or any other value, of which the handler reads
  four keys. The tag is \<open>None\<close> when the value has no string under \<^verbatim>\<open>type\<close>.
\<close>

datatype inbound =
    Unparseable
  | JsonNull
  | Parsed (msg_type: "string option") (content_of: "string option")
      (videoMode_of: "bool option") (signal_of: "WebRTCSignal option")

definition dispatch :: "uuid \<Rightarrow> string \<Rightarrow> string \<Rightarrow> inbound \<Rightarrow> server \<Rightarrow> outcome" where
  "dispatch sid ip ua data s =
     (case data of
        Unparseable \<Rightarrow> Thrown s
      | JsonNull \<Rightarrow> Thrown s
      | Parsed ty c vm sg \<Rightarrow>
          if ty = Some ''join_queue'' then handleJoinQueue sid ip ua s
          else if ty = Some ''send_message'' then handleSendMessage sid c s
          else if ty = Some ''next_user'' then handleNextUser sid ip ua vm s
          else if ty = Some ''report_user'' then handleReportUser sid ip ua s
          else if ty = Some ''start_video'' then handleStartVideo sid ip ua s
          else if ty = Some ''webrtc_signal'' then handleWebRTCSignal sid sg s
          else Returned s)"

definition on_message :: "uuid \<Rightarrow> string \<Rightarrow> string \<Rightarrow> inbound \<Rightarrow> server \<Rightarrow> server" where
  "on_message sid ip ua data s =
     (case dispatch sid ip ua data s of
        Returned s1 \<Rightarrow> s1
      | Thrown s1 \<Rightarrow> send sid (ErrorOut ''Failed to process message'') s1)"

definition api_audit_logs :: "server \<Rightarrow> AuditLog list" where
  "api_audit_logs s = getAuditLogs 50 s"

definition run_task :: "timer_task \<Rightarrow> server \<Rightarrow> server" where
  "run_task task s =
     (case (case task of
              MatchText avoid \<Rightarrow> tryMatchTextUsersWithPreference avoid s
            | MatchVideo avoid \<Rightarrow> tryMatchVideoUsersWithPreference avoid s) of
        Returned s1 \<Rightarrow> s1
      | Thrown s1 \<Rightarrow> s1)"

text \<open>
  The events the server reacts to. A message or a close arrives on a connection, given
  by its identifier and the address and client string its closure holds. \<open>Timeout i\<close>
  fires the pending timer at position \<open>i\<close>. \<open>Transport\<close> is a socket changing its
  ready state underneath the server, and \<open>Tick\<close> the clock advancing.
\<close>

datatype event =
    Connection string string
  | MessageEv uuid string string inbound
  | CloseEv uuid string string
  | Timeout nat
  | Transport uuid ReadyState
  | Tick int

fun step :: "event \<Rightarrow> server \<Rightarrow> server" where
  "step (Connection ip ua) s =
     (let (sid, s1) = randomUUID s;
          s2 = s1\<lparr>clients := clients s1 @ [\<lparr> ws_socketId = sid, readyState = OPEN \<rparr>]\<rparr>
      in send sid (Connected sid) s2)"
| "step (MessageEv sid ip ua data) s = on_message sid ip ua data s"
| "step (CloseEv sid ip ua) s =
     handleDisconnect sid ip ua
       (s\<lparr>clients := filter (\<lambda>client. ws_socketId client \<noteq> sid) (clients s)\<rparr>)"
| "step (Timeout i) s =
     (if i < length (timers s)
      then run_task (snd (timers s ! i)) (s\<lparr>timers := take i (timers s) @ drop (Suc i) (timers s)\<rparr>)
      else s)"
| "step (Transport sid rs) s =
     s\<lparr>clients := map (\<lambda>client. if ws_socketId client = sid
                                then client\<lparr>readyState := rs\<rparr> else client) (clients s)\<rparr>"
| "step (Tick t) s = s\<lparr>now := t\<rparr>"

definition run :: "event list \<Rightarrow> server \<Rightarrow> server" where
  "run evs s = fold step evs s"

section \<open>Concrete users, sockets and events\<close>

definition userOf :: "uuid \<Rightarrow> SocketUser" where
  "userOf i = \<lparr> socketId = i, joinedAt = 0, ipAddress = ''ip'', userAgent = ''ua'' \<rparr>"

definition openSocket :: "uuid \<Rightarrow> ExtendedWebSocket" where
  "openSocket i = \<lparr> ws_socketId = i, readyState = OPEN \<rparr>"

definition twoWaiting :: server where
  "twoWaiting = initial\<lparr>waitingQueue := [userOf 1, userOf 2],
                        videoWaitingQueue := [userOf 2]\<rparr>"

definition fourWaiting :: server where
  "fourWaiting = initial\<lparr>waitingQueue := [userOf 1, userOf 2, userOf 3, userOf 4],
                         clients := [openSocket 1, openSocket 2] \<rparr>"

definition threeWaiting :: server where
  "threeWaiting = initial\<lparr>waitingQueue := [userOf 1, userOf 2, userOf 3],
                          clients := [openSocket 1, openSocket 2, openSocket 3] \<rparr>"

definition threeLogs :: server where
  "threeLogs = snd (createAuditLog (pairedLog ''paired'' ''Paired with '' (userOf 2) (userOf 1))
       (snd (createAuditLog (pairedLog ''paired'' ''Paired with '' (userOf 1) (userOf 2))
          (snd (createAuditLog (pairedLog ''x'' ''y'' (userOf 3) (userOf 3)) initial)\<lparr>now := 7\<rparr>))))"

text \<open>
  What the audit query promises of its result \<open>r\<close> for the stored records \<open>logs\<close>
  and the bound \<open>n\<close>: newest first, as many records as the bound allows, records of
  the store only, none of the records left out newer than one returned, and ties kept in
  the order of the store.
\<close>

definition newest_first_bounded :: "nat \<Rightarrow> AuditLog list \<Rightarrow> AuditLog list \<Rightarrow> bool" where
  "newest_first_bounded n logs r \<longleftrightarrow>
     sorted_wrt (\<lambda>a b. log_timestamp b \<le> log_timestamp a) r \<and>
     length r = min n (length logs) \<and>
     mset r \<subseteq># mset logs \<and>
     (\<forall>x \<in># mset logs - mset r. \<forall>y \<in> set r. log_timestamp x \<le> log_timestamp y) \<and>
     r = take n (sort_key (\<lambda>a. - log_timestamp a) logs)"

text \<open>
  Payloads as a client sends them, and event sequences from the start of the server:
  two connections (identifiers 0 and 1) that join the text queue and are paired; the same
  followed by a third connection (identifier 7) and a \<^verbatim>\<open>next_user\<close> of 0; and a
  pairing made while the socket of 0 is closing.
\<close>

definition joinText :: "uuid \<Rightarrow> event" where
  "joinText i = MessageEv i ''ip'' ''ua'' (Parsed (Some ''join_queue'') None None None)"

definition nextUser :: "uuid \<Rightarrow> event" where
  "nextUser i = MessageEv i ''ip'' ''ua'' (Parsed (Some ''next_user'') None None None)"

definition sendText :: "uuid \<Rightarrow> string \<Rightarrow> event" where
  "sendText i c = MessageEv i ''ip'' ''ua'' (Parsed (Some ''send_message'') (Some c) None None)"

definition pairUp :: "event list" where
  "pairUp = [Connection ''ip'' ''ua'', Connection ''ip'' ''ua'', joinText 0, joinText 1]"

definition splitByNext :: "event list" where
  "splitByNext = pairUp @ [Connection ''ip'' ''ua'', nextUser 0]"

definition unauditedPairing :: "event list" where
  "unauditedPairing = [Connection ''ip'' ''ua'', Connection ''ip'' ''ua'', joinText 0,
     Transport 0 CLOSING, joinText 1]"


text \<open>
  Two audit records of one pairing: the same action, and each names the other
  participant as partner.
\<close>

definition symmetricPair :: "string \<Rightarrow> uuid \<Rightarrow> uuid \<Rightarrow> AuditLog \<Rightarrow> AuditLog \<Rightarrow> bool" where
  "symmetricPair act a b l1 l2 \<longleftrightarrow>
     log_action l1 = act \<and> log_socketId l1 = a \<and> log_partnerSocketId l1 = Some b \<and>
     log_action l2 = act \<and> log_socketId l2 = b \<and> log_partnerSocketId l2 = Some a"








text \<open>
  What a matcher's outcome \<open>res\<close> owes the audit log when it pairs \<open>u1\<close> with
  \<open>u2\<close> from the state \<open>s\<close>: the room exists, and the log grew by a symmetric
  pair of records when both sockets were found open, and not at all otherwise.
\<close>

definition pairingAudit :: "string \<Rightarrow> server \<Rightarrow> SocketUser \<Rightarrow> SocketUser \<Rightarrow> outcome \<Rightarrow> bool" where
  "pairingAudit act s u1 u2 res \<longleftrightarrow>
     (\<exists>s'. res = Returned s' \<and>
        map_option users (getRoomByUser (socketId u1) s') = Some [socketId u1, socketId u2] \<and>
        (if findWebSocketBySocketId (socketId u1) s \<noteq> None \<and>
            findWebSocketBySocketId (socketId u2) s \<noteq> None
         then \<exists>l1 l2. auditLogs s' = auditLogs s @
                  [(Suc (nextUuid s), l1), (Suc (Suc (nextUuid s)), l2)] \<and>
                symmetricPair act (socketId u1) (socketId u2) l1 l2
         else auditLogs s' = auditLogs s))"

definition videoWaiting :: server where
  "videoWaiting = initial\<lparr>videoWaitingQueue := [userOf 1, userOf 2],
                          clients := [openSocket 1, openSocket 2]\<rparr>"

section \<open>Storage: rooms\<close>

lemma fold_unmap:
  "fold (\<lambda>sid t. t\<lparr>userRoomMap := (userRoomMap t)(sid := None)\<rparr>) xs (s::server) =
     s\<lparr>userRoomMap := (\<lambda>u. if u \<in> set xs then None else userRoomMap s u)\<rparr>"
proof -
  define F :: "uuid \<Rightarrow> server \<Rightarrow> server"
    where "F = (\<lambda>sid t. t\<lparr>userRoomMap := (userRoomMap t)(sid := None)\<rparr>)"
  have "fold F xs s =
          s\<lparr>userRoomMap := (\<lambda>u. if u \<in> set xs then None else userRoomMap s u)\<rparr>"
  proof (induction xs arbitrary: s)
    case Nil
    show ?case by simp
  next
    case (Cons x xs)
    have "fold F (x # xs) s = fold F xs (F x s)" by simp
    also have "\<dots> = (F x s)\<lparr>userRoomMap :=
        (\<lambda>u. if u \<in> set xs then None else userRoomMap (F x s) u)\<rparr>"
      by (rule Cons.IH)
    also have "\<dots> = s\<lparr>userRoomMap :=
        (\<lambda>u. if u \<in> set (x # xs) then None else userRoomMap s u)\<rparr>"
      by (auto simp: F_def fun_eq_iff)
    finally show ?case .
  qed
  then show ?thesis by (simp only: F_def)
qed

lemma removeRoom_eq:
  "removeRoom roomId s =
     (case chatRooms s roomId of
        None \<Rightarrow> s
      | Some room \<Rightarrow>
          s\<lparr>userRoomMap := (\<lambda>u. if u \<in> set (users room) then None else userRoomMap s u),
            chatRooms := (chatRooms s)(roomId := None),
            webrtcState := (webrtcState s)(roomId := None)\<rparr>)"
  by (simp add: removeRoom_def fold_unmap clearWebRTCState_def split: option.splits)

text \<open>
  C2. When \<open>createRoom\<close> returns, both participants are absent from the text queue and
  from the video queue, and the user-to-room mapping sends both to the identifier of the
  room just created, which the room store holds under that identifier. \<open>createRoom\<close>
  is one function from state to state: no other handler runs inside it.
\<close>

theorem createRoom_atomic:
  assumes "createRoom user1 user2 s = (room, s')"
  shows "socketId user1 \<notin> socketId ` set (waitingQueue s') \<and>
         socketId user2 \<notin> socketId ` set (waitingQueue s') \<and>
         socketId user1 \<notin> socketId ` set (videoWaitingQueue s') \<and>
         socketId user2 \<notin> socketId ` set (videoWaitingQueue s') \<and>
         room_id room = nextUuid s \<and>
         users room = [socketId user1, socketId user2] \<and>
         chatRooms s' (room_id room) = Some room \<and>
         userRoomMap s' (socketId user1) = Some (room_id room) \<and>
         userRoomMap s' (socketId user2) = Some (room_id room) \<and>
         getRoomByUser (socketId user1) s' = Some room \<and>
         getRoomByUser (socketId user2) s' = Some room"
  using assms
  by (auto simp: createRoom_def randomUUID_def removeUserFromQueue_def
      removeUserFromVideoQueue_def getRoomByUser_def Let_def)

theorem createRoom_atomic_witness:
  "createRoom (userOf 1) (userOf 2) twoWaiting =
     (fst (createRoom (userOf 1) (userOf 2) twoWaiting),
      snd (createRoom (userOf 1) (userOf 2) twoWaiting)) \<and>
   waitingQueue twoWaiting = [userOf 1, userOf 2] \<and>
   videoWaitingQueue twoWaiting = [userOf 2] \<and>
   waitingQueue (snd (createRoom (userOf 1) (userOf 2) twoWaiting)) = [] \<and>
   videoWaitingQueue (snd (createRoom (userOf 1) (userOf 2) twoWaiting)) = [] \<and>
   room_id (fst (createRoom (userOf 1) (userOf 2) twoWaiting)) = 0 \<and>
   userRoomMap (snd (createRoom (userOf 1) (userOf 2) twoWaiting)) 1 = Some 0 \<and>
   userRoomMap (snd (createRoom (userOf 1) (userOf 2) twoWaiting)) 2 = Some 0"
  using createRoom_atomic [of "userOf 1" "userOf 2" twoWaiting
      "fst (createRoom (userOf 1) (userOf 2) twoWaiting)"
      "snd (createRoom (userOf 1) (userOf 2) twoWaiting)"]
  by (simp add: twoWaiting_def initial_def userOf_def createRoom_def randomUUID_def
      removeUserFromQueue_def removeUserFromVideoQueue_def Let_def)

text \<open>
  C10. \<open>removeUserFromRoom\<close> is idempotent on every state: a second call with the same
  identifier changes nothing (queues, rooms, user-to-room mapping, WebRTC state and all
  the rest of the state are equal). For an identifier that \<open>getRoomByUser\<close> finds in no
  room, one call filters the identifier out of both queues and changes nothing else.
\<close>

theorem removeUserFromRoom_idempotent:
  "removeUserFromRoom sid (removeUserFromRoom sid s) = removeUserFromRoom sid s \<and>
   (getRoomByUser sid s = None \<longrightarrow>
      removeUserFromRoom sid s =
        s\<lparr>waitingQueue := filter (\<lambda>user. socketId user \<noteq> sid) (waitingQueue s),
          videoWaitingQueue :=
            filter (\<lambda>user. socketId user \<noteq> sid) (videoWaitingQueue s)\<rparr>)"
  by (auto simp: removeUserFromRoom_def removeRoom_eq removeUserFromQueue_def
      removeUserFromVideoQueue_def getRoomByUser_def Let_def split: option.splits)

theorem removeUserFromRoom_idempotent_witness:
  "getRoomByUser 2 twoWaiting = None \<and>
   removeUserFromRoom 2 (removeUserFromRoom 2 twoWaiting) = removeUserFromRoom 2 twoWaiting \<and>
   removeUserFromRoom 2 twoWaiting =
     twoWaiting\<lparr>waitingQueue := [userOf 1], videoWaitingQueue := []\<rparr>"
proof -
  note idem = removeUserFromRoom_idempotent [of 2 twoWaiting]
  have none: "getRoomByUser 2 twoWaiting = None"
    by (simp add: twoWaiting_def initial_def getRoomByUser_def)
  have text_queue:
    "filter (\<lambda>user. socketId user \<noteq> 2) (waitingQueue twoWaiting) = [userOf 1]"
    by (simp add: twoWaiting_def userOf_def)
  have video_queue:
    "filter (\<lambda>user. socketId user \<noteq> 2) (videoWaitingQueue twoWaiting) = []"
    by (simp add: twoWaiting_def userOf_def)
  from idem have twice:
    "removeUserFromRoom 2 (removeUserFromRoom 2 twoWaiting) = removeUserFromRoom 2 twoWaiting"
    by (rule conjunct1)
  from idem none have once:
    "removeUserFromRoom 2 twoWaiting =
       twoWaiting\<lparr>waitingQueue := [userOf 1], videoWaitingQueue := []\<rparr>"
    by (simp only: text_queue video_queue)
  from none twice once show ?thesis by (intro conjI)
qed

section \<open>The matchers\<close>

lemma selectUsers_standard:
  "\<not> (2 < length q \<and> length avoid = 2) \<Longrightarrow> selectUsers q avoid = (q ! 0, Some (q ! 1))"
  by (auto simp: selectUsers_def)

lemma find_avoided:
  assumes "length (filter (\<lambda>u. socketId u \<notin> set avoid) q) < length q"
  shows "\<exists>v. find (\<lambda>u. socketId u \<in> set avoid) q = Some v \<and> v \<in> set q \<and> socketId v \<in> set avoid"
proof -
  from assms have "\<exists>x \<in> set q. socketId x \<in> set avoid"
    by (metis filter_True less_irrefl)
  then have "find (\<lambda>u. socketId u \<in> set avoid) q \<noteq> None"
    by (auto simp: find_None_iff)
  then obtain v where v: "find (\<lambda>u. socketId u \<in> set avoid) q = Some v" by blast
  then have "v \<in> set q \<and> socketId v \<in> set avoid"
    by (auto simp: find_Some_iff)
  with v show ?thesis by blast
qed

lemma selectUsers_total:
  assumes "2 \<le> length q"
  shows "\<exists>u1 u2. selectUsers q avoid = (u1, Some u2) \<and> u1 \<in> set q \<and> u2 \<in> set q \<and>
           (distinct (map socketId q) \<longrightarrow> socketId u1 \<noteq> socketId u2)"
proof -
  let ?na = "filter (\<lambda>u. socketId u \<notin> set avoid) q"
  have nth_ne: "socketId (xs ! 0) \<noteq> socketId (xs ! 1)"
    if "distinct (map socketId xs)" "2 \<le> length xs" for xs :: "SocketUser list"
  proof -
    from that have len: "0 < length xs" "1 < length xs" by linarith+
    from that len have "(map socketId xs ! 0 = map socketId xs ! 1) \<longleftrightarrow> (0::nat) = 1"
      by (intro nth_eq_iff_index_eq) simp_all
    with len show ?thesis by (simp del: One_nat_def)
  qed
  from assms have q0: "q ! 0 \<in> set q" and q1: "q ! 1 \<in> set q"
    by (auto intro: nth_mem)
  consider (std) "\<not> (2 < length q \<and> length avoid = 2)"
    | (two) "2 < length q" "length avoid = 2" "2 \<le> length ?na"
    | (one) "2 < length q" "length avoid = 2" "length ?na = 1"
    | (zero) "2 < length q" "length avoid = 2" "length ?na = 0"
    by linarith
  then show ?thesis
  proof cases
    case std
    with assms nth_ne [of q] q0 q1 show ?thesis
      by (simp add: selectUsers_standard)
  next
    case two
    have d: "distinct (map socketId q) \<longrightarrow> distinct (map socketId ?na)"
      by (simp add: distinct_map_filter)
    have m0: "?na ! 0 \<in> set ?na" and m1: "?na ! 1 \<in> set ?na"
      using two by (simp_all only: nth_mem)+
    from two d nth_ne [of ?na] m0 m1 show ?thesis
      by (auto simp: selectUsers_def Let_def)
  next
    case one
    then have "length ?na < length q" by simp
    from find_avoided [OF this] obtain v where
      v: "find (\<lambda>u. socketId u \<in> set avoid) q = Some v" "v \<in> set q" "socketId v \<in> set avoid"
      by blast
    have m0: "?na ! 0 \<in> set ?na" using one by (simp only: nth_mem)
    then have "?na ! 0 \<in> set q" "socketId (?na ! 0) \<notin> set avoid" by auto
    with one v show ?thesis
      by (auto simp: selectUsers_def Let_def)
  next
    case zero
    with assms nth_ne [of q] q0 q1 show ?thesis
      by (simp add: selectUsers_def)
  qed
qed

lemma tryMatchText_short:
  "length (waitingQueue s) < 2 \<Longrightarrow> tryMatchTextUsersWithPreference avoid s = Returned s"
  by (simp add: tryMatchTextUsersWithPreference_def getWaitingUsers_def)

lemma createRoom_fields:
  "waitingQueue (snd (createRoom u1 u2 s)) =
     filter (\<lambda>u. socketId u \<noteq> socketId u2) (filter (\<lambda>u. socketId u \<noteq> socketId u1) (waitingQueue s))"
  "videoWaitingQueue (snd (createRoom u1 u2 s)) =
     filter (\<lambda>u. socketId u \<noteq> socketId u2) (filter (\<lambda>u. socketId u \<noteq> socketId u1) (videoWaitingQueue s))"
  "chatRooms (snd (createRoom u1 u2 s)) = (chatRooms s)(nextUuid s \<mapsto> fst (createRoom u1 u2 s))"
  "userRoomMap (snd (createRoom u1 u2 s)) =
     (userRoomMap s)(socketId u1 \<mapsto> nextUuid s, socketId u2 \<mapsto> nextUuid s)"
  "nextUuid (snd (createRoom u1 u2 s)) = Suc (nextUuid s)"
  "webrtcState (snd (createRoom u1 u2 s)) = webrtcState s"
  "clients (snd (createRoom u1 u2 s)) = clients s"
  "timers (snd (createRoom u1 u2 s)) = timers s"
  "now (snd (createRoom u1 u2 s)) = now s"
  "outbox (snd (createRoom u1 u2 s)) = outbox s"
  "auditLogs (snd (createRoom u1 u2 s)) = auditLogs s"
  "fst (createRoom u1 u2 s) = \<lparr> room_id = nextUuid s, users = [socketId u1, socketId u2],
       createdAt = now s, isVideoCall = None \<rparr>"
  by (simp_all add: createRoom_def randomUUID_def removeUserFromQueue_def
      removeUserFromVideoQueue_def Let_def)

lemma createAuditLog_fields:
  "waitingQueue (snd (createAuditLog i s)) = waitingQueue s"
  "videoWaitingQueue (snd (createAuditLog i s)) = videoWaitingQueue s"
  "chatRooms (snd (createAuditLog i s)) = chatRooms s"
  "userRoomMap (snd (createAuditLog i s)) = userRoomMap s"
  "nextUuid (snd (createAuditLog i s)) = Suc (nextUuid s)"
  "webrtcState (snd (createAuditLog i s)) = webrtcState s"
  "clients (snd (createAuditLog i s)) = clients s"
  "timers (snd (createAuditLog i s)) = timers s"
  "now (snd (createAuditLog i s)) = now s"
  "outbox (snd (createAuditLog i s)) = outbox s"
  by (simp_all add: createAuditLog_def randomUUID_def Let_def)

lemma send_fields:
  "waitingQueue (send w e s) = waitingQueue s"
  "videoWaitingQueue (send w e s) = videoWaitingQueue s"
  "chatRooms (send w e s) = chatRooms s"
  "userRoomMap (send w e s) = userRoomMap s"
  "nextUuid (send w e s) = nextUuid s"
  "webrtcState (send w e s) = webrtcState s"
  "clients (send w e s) = clients s"
  "timers (send w e s) = timers s"
  "now (send w e s) = now s"
  "auditLogs (send w e s) = auditLogs s"
  "outbox (send w e s) = outbox s @ [(w, e)]"
  by (simp_all add: send_def)

lemma findWebSocket_fields:
  "findWebSocketBySocketId i (send w e s) = findWebSocketBySocketId i s"
  "findWebSocketBySocketId i (snd (createAuditLog l s)) = findWebSocketBySocketId i s"
  "findWebSocketBySocketId i (snd (createRoom u1 u2 s)) = findWebSocketBySocketId i s"
  by (simp_all add: findWebSocketBySocketId_def send_fields createAuditLog_fields createRoom_fields)

lemma tryMatchText_pair:
  assumes "2 \<le> length (waitingQueue s)"
    and "selectUsers (waitingQueue s) avoid = (u1, Some u2)"
  shows "\<exists>s'. tryMatchTextUsersWithPreference avoid s = Returned s' \<and>
           waitingQueue s' = waitingQueue (snd (createRoom u1 u2 s)) \<and>
           videoWaitingQueue s' = videoWaitingQueue (snd (createRoom u1 u2 s)) \<and>
           chatRooms s' = chatRooms (snd (createRoom u1 u2 s)) \<and>
           userRoomMap s' = userRoomMap (snd (createRoom u1 u2 s)) \<and>
           nextUuid s < nextUuid s' \<and> webrtcState s' = webrtcState s \<and>
           clients s' = clients s \<and> timers s' = timers s \<and> now s' = now s"
proof (cases "findWebSocketBySocketId (socketId u1) s")
  case None
  with assms show ?thesis
    by (simp add: tryMatchTextUsersWithPreference_def getWaitingUsers_def
        case_prod_beta findWebSocket_fields createRoom_fields)
next
  case a: (Some ws1)
  show ?thesis
  proof (cases "findWebSocketBySocketId (socketId u2) s")
    case None
    with assms a show ?thesis
      by (simp add: tryMatchTextUsersWithPreference_def getWaitingUsers_def
          case_prod_beta findWebSocket_fields createRoom_fields)
  next
    case (Some ws2)
    with assms a show ?thesis
      by (simp add: tryMatchTextUsersWithPreference_def getWaitingUsers_def
          case_prod_beta findWebSocket_fields createRoom_fields createAuditLog_fields
          send_fields Let_def)
  qed
qed

text \<open>
  C5. The text matcher on every queue and avoid list. With fewer than two waiting entries
  it returns and changes nothing. With two or more it picks two waiting entries, creates
  one room holding exactly these two and takes both out of the queue. The pick: the two
  oldest entries when no avoid list is given (so a queue A, B, C, D yields A and B); with
  more than two entries and an avoid pair, the two oldest entries outside the pair when
  there are two; the one entry outside the pair together with the oldest entry of the
  pair when there is exactly one; the two oldest entries when no entry is outside the
  pair; and with exactly two entries these two, avoided or not.
\<close>

theorem matchmaker_algorithm:
  "(length (getWaitingUsers s) < 2 \<longrightarrow>
      tryMatchTextUsersWithPreference avoid s = Returned s) \<and>
   (2 \<le> length (getWaitingUsers s) \<longrightarrow>
      (\<exists>u1 u2 s'. selectUsers (getWaitingUsers s) avoid = (u1, Some u2) \<and>
         u1 \<in> set (getWaitingUsers s) \<and> u2 \<in> set (getWaitingUsers s) \<and>
         tryMatchTextUsersWithPreference avoid s = Returned s' \<and>
         getRoomByUser (socketId u1) s' = getRoomByUser (socketId u2) s' \<and>
         map_option users (getRoomByUser (socketId u1) s') = Some [socketId u1, socketId u2] \<and>
         getWaitingUsers s' =
           filter (\<lambda>u. socketId u \<noteq> socketId u2)
             (filter (\<lambda>u. socketId u \<noteq> socketId u1) (getWaitingUsers s)))) \<and>
   (2 \<le> length (getWaitingUsers s) \<and> avoid = [] \<longrightarrow>
      selectUsers (getWaitingUsers s) avoid =
        (getWaitingUsers s ! 0, Some (getWaitingUsers s ! 1))) \<and>
   (2 < length (getWaitingUsers s) \<and> length avoid = 2 \<and>
    2 \<le> length (filter (\<lambda>u. socketId u \<notin> set avoid) (getWaitingUsers s)) \<longrightarrow>
      selectUsers (getWaitingUsers s) avoid =
        (filter (\<lambda>u. socketId u \<notin> set avoid) (getWaitingUsers s) ! 0,
         Some (filter (\<lambda>u. socketId u \<notin> set avoid) (getWaitingUsers s) ! 1))) \<and>
   (2 < length (getWaitingUsers s) \<and> length avoid = 2 \<and>
    length (filter (\<lambda>u. socketId u \<notin> set avoid) (getWaitingUsers s)) = 1 \<longrightarrow>
      (\<exists>v. selectUsers (getWaitingUsers s) avoid =
             (filter (\<lambda>u. socketId u \<notin> set avoid) (getWaitingUsers s) ! 0, Some v) \<and>
           find (\<lambda>u. socketId u \<in> set avoid) (getWaitingUsers s) = Some v \<and>
           v \<in> set (getWaitingUsers s) \<and> socketId v \<in> set avoid)) \<and>
   (2 < length (getWaitingUsers s) \<and> length avoid = 2 \<and>
    filter (\<lambda>u. socketId u \<notin> set avoid) (getWaitingUsers s) = [] \<longrightarrow>
      selectUsers (getWaitingUsers s) avoid =
        (getWaitingUsers s ! 0, Some (getWaitingUsers s ! 1))) \<and>
   (length (getWaitingUsers s) = 2 \<longrightarrow>
      selectUsers (getWaitingUsers s) avoid =
        (getWaitingUsers s ! 0, Some (getWaitingUsers s ! 1)))"
proof -
  let ?q = "getWaitingUsers s"
  let ?na = "filter (\<lambda>u. socketId u \<notin> set avoid) ?q"
  have short: "length ?q < 2 \<longrightarrow> tryMatchTextUsersWithPreference avoid s = Returned s"
    by (simp add: tryMatchText_short getWaitingUsers_def)
  have pair: "\<exists>u1 u2 s'. selectUsers ?q avoid = (u1, Some u2) \<and>
         u1 \<in> set ?q \<and> u2 \<in> set ?q \<and>
         tryMatchTextUsersWithPreference avoid s = Returned s' \<and>
         getRoomByUser (socketId u1) s' = getRoomByUser (socketId u2) s' \<and>
         map_option users (getRoomByUser (socketId u1) s') = Some [socketId u1, socketId u2] \<and>
         getWaitingUsers s' =
           filter (\<lambda>u. socketId u \<noteq> socketId u2)
             (filter (\<lambda>u. socketId u \<noteq> socketId u1) ?q)"
    if len: "2 \<le> length ?q"
  proof -
    from selectUsers_total [OF len, of avoid] obtain u1 u2 where
      sel: "selectUsers ?q avoid = (u1, Some u2)" and mem: "u1 \<in> set ?q" "u2 \<in> set ?q"
      by blast
    from len sel have "2 \<le> length (waitingQueue s)"
      "selectUsers (waitingQueue s) avoid = (u1, Some u2)"
      by (simp_all add: getWaitingUsers_def)
    from tryMatchText_pair [OF this] obtain s' where
      s': "tryMatchTextUsersWithPreference avoid s = Returned s'"
        "waitingQueue s' = waitingQueue (snd (createRoom u1 u2 s))"
        "chatRooms s' = chatRooms (snd (createRoom u1 u2 s))"
        "userRoomMap s' = userRoomMap (snd (createRoom u1 u2 s))"
      by blast
    have "getRoomByUser (socketId u1) s' = getRoomByUser (socketId u2) s'"
      "map_option users (getRoomByUser (socketId u1) s') = Some [socketId u1, socketId u2]"
      "getWaitingUsers s' =
           filter (\<lambda>u. socketId u \<noteq> socketId u2)
             (filter (\<lambda>u. socketId u \<noteq> socketId u1) ?q)"
      by (simp_all add: getRoomByUser_def s' createRoom_fields getWaitingUsers_def)
    with sel mem s'(1) show ?thesis by blast
  qed
  have std: "selectUsers ?q avoid = (?q ! 0, Some (?q ! 1))"
    if "avoid = [] \<or> length ?q = 2"
    using that by (auto simp: selectUsers_def)
  have two: "selectUsers ?q avoid = (?na ! 0, Some (?na ! 1))"
    if "2 < length ?q" "length avoid = 2" "2 \<le> length ?na"
    using that by (simp add: selectUsers_def Let_def del: One_nat_def)
  have one: "\<exists>v. selectUsers ?q avoid = (?na ! 0, Some v) \<and>
           find (\<lambda>u. socketId u \<in> set avoid) ?q = Some v \<and>
           v \<in> set ?q \<and> socketId v \<in> set avoid"
    if h: "2 < length ?q" "length avoid = 2" "length ?na = 1"
  proof -
    from h have "length ?na < length ?q" by simp
    from find_avoided [OF this] obtain v where
      "find (\<lambda>u. socketId u \<in> set avoid) ?q = Some v" "v \<in> set ?q" "socketId v \<in> set avoid"
      by blast
    with h show ?thesis by (simp add: selectUsers_def Let_def)
  qed
  have zero: "selectUsers ?q avoid = (?q ! 0, Some (?q ! 1))"
    if "2 < length ?q" "length avoid = 2" "?na = []"
    using that by (simp add: selectUsers_def Let_def del: One_nat_def)
  from short pair std two one zero show ?thesis by blast
qed

theorem matchmaker_algorithm_witness:
  "getWaitingUsers fourWaiting = [userOf 1, userOf 2, userOf 3, userOf 4] \<and>
   selectUsers (getWaitingUsers fourWaiting) [] = (userOf 1, Some (userOf 2)) \<and>
   (\<exists>s'. tryMatchTextUsersWithPreference [] fourWaiting = Returned s' \<and>
      map_option users (getRoomByUser 1 s') = Some [1, 2] \<and>
      getRoomByUser 1 s' = getRoomByUser 2 s' \<and>
      getWaitingUsers s' = [userOf 3, userOf 4]) \<and>
   tryMatchTextUsersWithPreference [] initial = Returned initial \<and>
   getWaitingUsers threeWaiting = [userOf 1, userOf 2, userOf 3] \<and>
   selectUsers (getWaitingUsers threeWaiting) [1, 2] = (userOf 3, Some (userOf 1))"
proof -
  note four = matchmaker_algorithm [of fourWaiting "[]"]
  note none = matchmaker_algorithm [of initial "[]"]
  note three = matchmaker_algorithm [of threeWaiting "[1, 2]"]
  have q4: "getWaitingUsers fourWaiting = [userOf 1, userOf 2, userOf 3, userOf 4]"
    by (simp add: fourWaiting_def getWaitingUsers_def)
  have q3: "getWaitingUsers threeWaiting = [userOf 1, userOf 2, userOf 3]"
    by (simp add: threeWaiting_def getWaitingUsers_def)
  have q0: "getWaitingUsers initial = []"
    by (simp add: initial_def getWaitingUsers_def)
  have l4: "2 \<le> length (getWaitingUsers fourWaiting)" by (simp add: q4)
  from four [THEN conjunct2, THEN conjunct2, THEN conjunct1] l4
  have "selectUsers (getWaitingUsers fourWaiting) [] =
      (getWaitingUsers fourWaiting ! 0, Some (getWaitingUsers fourWaiting ! 1))"
    by blast
  then have fifo: "selectUsers (getWaitingUsers fourWaiting) [] = (userOf 1, Some (userOf 2))"
    by (simp add: q4)
  from four [THEN conjunct2, THEN conjunct1] l4 obtain u1 u2 s' where
    m: "selectUsers (getWaitingUsers fourWaiting) [] = (u1, Some u2)"
       "tryMatchTextUsersWithPreference [] fourWaiting = Returned s'"
       "getRoomByUser (socketId u1) s' = getRoomByUser (socketId u2) s'"
       "map_option users (getRoomByUser (socketId u1) s') = Some [socketId u1, socketId u2]"
       "getWaitingUsers s' =
           filter (\<lambda>u. socketId u \<noteq> socketId u2)
             (filter (\<lambda>u. socketId u \<noteq> socketId u1) (getWaitingUsers fourWaiting))"
    by blast
  from m(1) fifo have u: "u1 = userOf 1" "u2 = userOf 2" by simp_all
  from m(3-5) have
      "map_option users (getRoomByUser 1 s') = Some [1, 2]"
      "getRoomByUser 1 s' = getRoomByUser 2 s'"
      "getWaitingUsers s' = [userOf 3, userOf 4]"
    by (simp_all add: u q4 userOf_def)
  with m(2) have room: "\<exists>s'. tryMatchTextUsersWithPreference [] fourWaiting = Returned s' \<and>
      map_option users (getRoomByUser 1 s') = Some [1, 2] \<and>
      getRoomByUser 1 s' = getRoomByUser 2 s' \<and>
      getWaitingUsers s' = [userOf 3, userOf 4]"
    by blast
  from none [THEN conjunct1]
  have empty: "tryMatchTextUsersWithPreference [] initial = Returned initial"
    by (simp add: q0)
  have na: "filter (\<lambda>u. socketId u \<notin> set [1, 2]) (getWaitingUsers threeWaiting) = [userOf 3]"
    by (simp add: q3 userOf_def)
  have fa: "find (\<lambda>u. socketId u \<in> set [1, 2]) (getWaitingUsers threeWaiting) = Some (userOf 1)"
    by (simp add: q3 userOf_def)
  have "2 < length (getWaitingUsers threeWaiting) \<and> length [1::nat, 2] = 2 \<and>
    length (filter (\<lambda>u. socketId u \<notin> set [1, 2]) (getWaitingUsers threeWaiting)) = 1"
    by (simp add: q3 userOf_def)
  with three [THEN conjunct2, THEN conjunct2, THEN conjunct2, THEN conjunct2, THEN conjunct1]
  obtain v where
    "selectUsers (getWaitingUsers threeWaiting) [1, 2] =
       (filter (\<lambda>u. socketId u \<notin> set [1, 2]) (getWaitingUsers threeWaiting) ! 0, Some v)"
    "find (\<lambda>u. socketId u \<in> set [1, 2]) (getWaitingUsers threeWaiting) = Some v"
    by blast
  then have avoided:
    "selectUsers (getWaitingUsers threeWaiting) [1, 2] = (userOf 3, Some (userOf 1))"
    by (simp only: na fa nth_Cons_0 option.inject)
  from q4 fifo room empty q3 avoided show ?thesis by (intro conjI)
qed

section \<open>The audit query\<close>

lemma take_sorted_newest:
  "newest_first_bounded n logs (take n (sort_key (\<lambda>a. - log_timestamp a) logs))"
proof -
  define xs where "xs = sort_key (\<lambda>a. - log_timestamp a) logs"
  have srt: "sorted_wrt (\<lambda>a b. log_timestamp b \<le> log_timestamp a) xs"
    using sorted_sort_key [of "\<lambda>a. - log_timestamp a" logs]
    by (simp add: xs_def sorted_map)
  have ms: "mset xs = mset logs" by (simp add: xs_def)
  have len: "length xs = length logs" by (simp add: xs_def)
  have split: "take n xs @ drop n xs = xs" by simp
  have s1: "sorted_wrt (\<lambda>a b. log_timestamp b \<le> log_timestamp a) (take n xs)"
    using srt by (rule sorted_wrt_take)
  have cross: "\<forall>y \<in> set (take n xs). \<forall>x \<in> set (drop n xs). log_timestamp x \<le> log_timestamp y"
    using srt sorted_wrt_append [of "\<lambda>a b. log_timestamp b \<le> log_timestamp a" "take n xs" "drop n xs"]
    by (simp only: split) blast
  have "mset (take n xs) + mset (drop n xs) = mset logs"
    using ms by (metis split mset_append)
  then have rest: "mset logs - mset (take n xs) = mset (drop n xs)"
    and sub: "mset (take n xs) \<subseteq># mset logs"
    by (metis add_diff_cancel_left', metis mset_subset_eq_add_left)
  show ?thesis
    unfolding newest_first_bounded_def xs_def [symmetric]
    using s1 cross rest sub len by auto
qed

lemma getAuditLogs_take:
  "0 \<le> limit \<Longrightarrow>
     getAuditLogs limit s =
       take (nat limit) (sort_key (\<lambda>a. - log_timestamp a) (map snd (auditLogs s)))"
  by (simp add: getAuditLogs_def slice0_def)

text \<open>
  C9. The storage query with its default bound of 100, the HTTP endpoint with its bound
  of 50 and the query with any bound that is not negative return, for every store, the
  newest records up to the bound, newest first.
\<close>

theorem audit_query_newest_first_bounded:
  "newest_first_bounded 100 (map snd (auditLogs s)) (getAuditLogs_default s) \<and>
   newest_first_bounded 50 (map snd (auditLogs s)) (api_audit_logs s) \<and>
   (0 \<le> limit \<longrightarrow>
      newest_first_bounded (nat limit) (map snd (auditLogs s)) (getAuditLogs limit s))"
  using take_sorted_newest [of 100 "map snd (auditLogs s)"]
    take_sorted_newest [of 50 "map snd (auditLogs s)"]
    take_sorted_newest [of "nat limit" "map snd (auditLogs s)"]
  by (simp add: getAuditLogs_default_def api_audit_logs_def getAuditLogs_take)

theorem audit_query_newest_first_bounded_witness:
  "map (\<lambda>l. (log_id l, log_timestamp l)) (map snd (auditLogs threeLogs)) = [(0, 0), (1, 7), (2, 7)] \<and>
   (0::int) \<le> 2 \<and>
   newest_first_bounded (nat 2) (map snd (auditLogs threeLogs)) (getAuditLogs 2 threeLogs) \<and>
   map (\<lambda>l. (log_id l, log_timestamp l)) (getAuditLogs 2 threeLogs) = [(1, 7), (2, 7)] \<and>
   newest_first_bounded 50 (map snd (auditLogs threeLogs)) (api_audit_logs threeLogs) \<and>
   map log_id (api_audit_logs threeLogs) = [1, 2, 0]"
proof -
  note th = audit_query_newest_first_bounded [of threeLogs 2]
  have logs: "map (\<lambda>l. (log_id l, log_timestamp l)) (map snd (auditLogs threeLogs)) =
      [(0, 0), (1, 7), (2, 7)]"
    by (simp add: threeLogs_def createAuditLog_def randomUUID_def initial_def Let_def)
  from th have b2: "newest_first_bounded (nat 2) (map snd (auditLogs threeLogs)) (getAuditLogs 2 threeLogs)"
    by simp
  from th have b50: "newest_first_bounded 50 (map snd (auditLogs threeLogs)) (api_audit_logs threeLogs)"
    by simp
  have r2: "map (\<lambda>l. (log_id l, log_timestamp l)) (getAuditLogs 2 threeLogs) = [(1, 7), (2, 7)]"
    by (simp add: getAuditLogs_def slice0_def threeLogs_def createAuditLog_def randomUUID_def
        initial_def Let_def)
  have r50: "map log_id (api_audit_logs threeLogs) = [1, 2, 0]"
    by (simp add: api_audit_logs_def getAuditLogs_def slice0_def threeLogs_def createAuditLog_def
        randomUUID_def initial_def Let_def)
  from logs b2 r2 b50 r50 show ?thesis by simp
qed

section \<open>Event sequences from the initial state\<close>

lemmas model_defs = on_message_def dispatch_def handleJoinQueue_def handleStartVideo_def
  handleSendMessage_def handleNextUser_def handleReportUser_def handleWebRTCSignal_def
  handleDisconnect_def requeueBoth_def requeuePartner_def run_task_def
  tryMatchTextUsersWithPreference_def tryMatchVideoUsersWithPreference_def selectUsers_def
  pairedLog_def createRoom_def removeUserFromRoom_def removeRoom_def clearWebRTCState_def
  getRoomByUser_def addUserToQueue_def addUserToVideoQueue_def removeUserFromQueue_def
  removeUserFromVideoQueue_def getWaitingUsers_def getWaitingVideoUsers_def createAuditLog_def
  randomUUID_def send_def setTimeout_def findWebSocketBySocketId_def truthy_def
  joinText_def nextUser_def sendText_def Let_def

lemma run_simps:
  "run [] s = s"
  "run (e # es) s = run es (step e s)"
  "run (xs @ ys) s = run ys (run xs s)"
  by (simp_all add: run_def)

lemma paired_fields:
  "waitingQueue (run pairUp initial) = []"
  "videoWaitingQueue (run pairUp initial) = []"
  "nextUuid (run pairUp initial) = 7"
  "now (run pairUp initial) = 0"
  "clients (run pairUp initial) =
     [\<lparr>ws_socketId = 0, readyState = OPEN\<rparr>, \<lparr>ws_socketId = 1, readyState = OPEN\<rparr>]"
  "timers (run pairUp initial) = []"
  "userRoomMap (run pairUp initial) k = (if k = 0 \<or> k = 1 then Some 4 else None)"
  "chatRooms (run pairUp initial) k =
     (if k = 4 then Some \<lparr>room_id = 4, users = [0, 1], createdAt = 0, isVideoCall = None\<rparr>
      else None)"
  by (simp_all add: pairUp_def run_simps initial_def model_defs)

lemma split_fields:
  "waitingQueue (run splitByNext initial) =
     [\<lparr>socketId = 0, joinedAt = 0, ipAddress = ''ip'', userAgent = ''ua''\<rparr>,
      \<lparr>socketId = 1, joinedAt = 0, ipAddress = [], userAgent = []\<rparr>]"
  "videoWaitingQueue (run splitByNext initial) = []"
  "nextUuid (run splitByNext initial) = 9"
  "now (run splitByNext initial) = 0"
  "clients (run splitByNext initial) =
     [\<lparr>ws_socketId = 0, readyState = OPEN\<rparr>, \<lparr>ws_socketId = 1, readyState = OPEN\<rparr>,
      \<lparr>ws_socketId = 7, readyState = OPEN\<rparr>]"
  "timers (run splitByNext initial) = [(1000, MatchText [0, 1])]"
  "userRoomMap (run splitByNext initial) k = None"
  "chatRooms (run splitByNext initial) k = None"
  by (simp_all add: splitByNext_def run_simps paired_fields model_defs)

text \<open>
  C3, on the code. Users 0 and 1 are paired, 0 sends \<^verbatim>\<open>next_user\<close>: both are back in
  the text queue, in that order, and the delayed match with the avoid list 0, 1 is
  pending. A third user 7 now joins the text queue. The join handler calls the matcher
  with no avoid list on the queue 0, 1, 7: it pairs 0 with 1 again and leaves 7 waiting,
  and the delayed match, when it fires, finds 7 alone.
\<close>

theorem third_user_left_waiting:
  "map socketId (waitingQueue (run splitByNext initial)) = [0, 1] \<and>
   getRoomByUser 0 (run splitByNext initial) = None \<and>
   getRoomByUser 1 (run splitByNext initial) = None \<and>
   timers (run splitByNext initial) = [(1000, MatchText [0, 1])] \<and>
   map socketId (waitingQueue (run (splitByNext @ [joinText 7]) initial)) = [7] \<and>
   map_option users (getRoomByUser 0 (run (splitByNext @ [joinText 7]) initial)) = Some [0, 1] \<and>
   map_option users (getRoomByUser 1 (run (splitByNext @ [joinText 7]) initial)) = Some [0, 1] \<and>
   getRoomByUser 7 (run (splitByNext @ [joinText 7]) initial) = None \<and>
   map socketId (waitingQueue (run (splitByNext @ [joinText 7, Timeout 0]) initial)) = [7] \<and>
   getRoomByUser 7 (run (splitByNext @ [joinText 7, Timeout 0]) initial) = None"
  by (simp add: run_simps split_fields model_defs)

text \<open>
  C4, on the code. Users 0 and 1 are paired and the socket of 1 is no longer open. When 0
  sends a message, the handler sends 0 the partner-disconnected notice, removes the room
  and returns: 0 is in neither queue and no match is scheduled.
\<close>

theorem sender_left_unqueued:
  "map_option users (getRoomByUser 0 (run (pairUp @ [Transport 1 CLOSING]) initial)) = Some [0, 1] \<and>
   findWebSocketBySocketId 1 (run (pairUp @ [Transport 1 CLOSING]) initial) = None \<and>
   outbox (run (pairUp @ [Transport 1 CLOSING, sendText 0 ''hello'']) initial) =
     outbox (run (pairUp @ [Transport 1 CLOSING]) initial) @
       [(0, PartnerDisconnected ''Your partner has disconnected'')] \<and>
   getRoomByUser 0 (run (pairUp @ [Transport 1 CLOSING, sendText 0 ''hello'']) initial) = None \<and>
   waitingQueue (run (pairUp @ [Transport 1 CLOSING, sendText 0 ''hello'']) initial) = [] \<and>
   videoWaitingQueue (run (pairUp @ [Transport 1 CLOSING, sendText 0 ''hello'']) initial) = [] \<and>
   timers (run (pairUp @ [Transport 1 CLOSING, sendText 0 ''hello'']) initial) = []"
  by (simp add: run_simps paired_fields model_defs)

section \<open>Message relay\<close>

lemma findWebSocket_Some:
  "findWebSocketBySocketId pid s = Some pws \<Longrightarrow> ws_socketId pws = pid \<and> readyState pws = OPEN"
  by (auto simp: findWebSocketBySocketId_def find_Some_iff)

text \<open>
  C6. A sender in a room whose partner's socket is found open: the handler returns, and
  what it sends is exactly one message event to the partner followed by one message-sent
  event to the sender, both carrying the first 1000 characters of the content (the cap
  of the code), so a content of 5000 characters arrives with 1000. Queues, rooms and the
  user-to-room mapping are unchanged.
\<close>

theorem message_relay:
  assumes "getRoomByUser sid s = Some room"
    and "find (\<lambda>i. i \<noteq> sid) (users room) = Some pid"
    and "findWebSocketBySocketId pid s = Some pws"
  shows "\<exists>m s'. handleSendMessage sid (Some c) s = Returned s' \<and>
           outbox s' = outbox s @ [(pid, MessageOut m), (sid, MessageSent (m\<lparr>isOwn := True\<rparr>))] \<and>
           pid \<noteq> sid \<and>
           msg_content m = take 1000 c \<and>
           length (msg_content m) = min 1000 (length c) \<and>
           waitingQueue s' = waitingQueue s \<and> videoWaitingQueue s' = videoWaitingQueue s \<and>
           chatRooms s' = chatRooms s \<and> userRoomMap s' = userRoomMap s"
proof -
  from findWebSocket_Some [OF assms(3)] have pws: "ws_socketId pws = pid" "readyState pws = OPEN"
    by simp_all
  from assms(2) have ne: "pid \<noteq> sid" by (auto simp: find_Some_iff)
  from assms pws ne show ?thesis
    by (simp add: handleSendMessage_def Let_def randomUUID_def send_fields createAuditLog_fields
        send_def)
qed

theorem message_relay_witness:
  "map_option users (getRoomByUser 0 (run pairUp initial)) = Some [0, 1] \<and>
   find (\<lambda>i. i \<noteq> 0) [0, 1::nat] = Some 1 \<and>
   findWebSocketBySocketId 1 (run pairUp initial) = Some \<lparr>ws_socketId = 1, readyState = OPEN\<rparr> \<and>
   (\<exists>m s'. handleSendMessage 0 (Some (replicate 5000 CHR ''a'')) (run pairUp initial) = Returned s' \<and>
      outbox s' = outbox (run pairUp initial) @
        [(1, MessageOut m), (0, MessageSent (m\<lparr>isOwn := True\<rparr>))] \<and>
      msg_content m = replicate 1000 CHR ''a'' \<and> length (msg_content m) = 1000)"
proof -
  let ?room = "\<lparr>room_id = 4, users = [0, 1], createdAt = 0, isVideoCall = None\<rparr>"
  have r: "getRoomByUser 0 (run pairUp initial) = Some ?room"
    by (simp add: getRoomByUser_def paired_fields)
  have f: "find (\<lambda>i. i \<noteq> 0) (users ?room) = Some 1" by simp
  have w: "findWebSocketBySocketId 1 (run pairUp initial) = Some \<lparr>ws_socketId = 1, readyState = OPEN\<rparr>"
    by (simp add: findWebSocketBySocketId_def paired_fields)
  from message_relay [OF r f w, of "replicate 5000 CHR ''a''"] obtain m s' where
    ms: "handleSendMessage 0 (Some (replicate 5000 CHR ''a'')) (run pairUp initial) = Returned s'"
      "outbox s' = outbox (run pairUp initial) @
         [(1, MessageOut m), (0, MessageSent (m\<lparr>isOwn := True\<rparr>))]"
      "msg_content m = take 1000 (replicate 5000 CHR ''a'')"
      "length (msg_content m) = min 1000 (length (replicate 5000 CHR ''a''))"
    by blast
  from ms(3) have c: "msg_content m = replicate 1000 CHR ''a''" by simp
  from ms(4) have l: "length (msg_content m) = 1000" by simp
  from ms(1,2) c l have ex: "\<exists>m s'. handleSendMessage 0 (Some (replicate 5000 CHR ''a'')) (run pairUp initial) = Returned s' \<and>
      outbox s' = outbox (run pairUp initial) @
        [(1, MessageOut m), (0, MessageSent (m\<lparr>isOwn := True\<rparr>))] \<and>
      msg_content m = replicate 1000 CHR ''a'' \<and> length (msg_content m) = 1000"
    by blast
  from r have r': "map_option users (getRoomByUser 0 (run pairUp initial)) = Some [0, 1]" by simp
  from f have f': "find (\<lambda>i. i \<noteq> 0) [0, 1::nat] = Some 1" by simp
  from r' f' w ex show ?thesis by (intro conjI)
qed

section \<open>Protocol errors\<close>




section \<open>Audit of pairings\<close>

text \<open>
  C8 as stated fails: user 0 waits, its socket starts closing, user 1 joins. The matcher
  creates the room of 0 and 1, and the audit log holds the two join records only.
\<close>

theorem unaudited_pairing_counterexample:
  "map_option users (getRoomByUser 0 (run unauditedPairing initial)) = Some [0, 1] \<and>
   map_option users (getRoomByUser 1 (run unauditedPairing initial)) = Some [0, 1] \<and>
   map (log_action \<circ> snd) (auditLogs (run unauditedPairing initial)) =
     [''join_queue'', ''join_queue'']"
  by (simp add: unauditedPairing_def run_simps initial_def model_defs)

lemma update_fresh:
  "k \<notin> fst ` set al \<Longrightarrow> AList.update k v al = al @ [(k, v)]"
  by (induction al) auto

lemma two_audits:
  assumes fresh: "\<forall>k \<in> fst ` set (auditLogs t). k < nextUuid t"
  shows "\<exists>l1 l2.
      auditLogs (snd (createAuditLog (pairedLog act pre u2 u1)
        (snd (createAuditLog (pairedLog act pre u1 u2) t)))) =
        auditLogs t @ [(nextUuid t, l1), (Suc (nextUuid t), l2)] \<and>
      symmetricPair act (socketId u1) (socketId u2) l1 l2"
proof -
  let ?n = "nextUuid t"
  let ?s4 = "snd (createAuditLog (pairedLog act pre u1 u2) t)"
  let ?s5 = "snd (createAuditLog (pairedLog act pre u2 u1) ?s4)"
  let ?l1 = "fst (createAuditLog (pairedLog act pre u1 u2) t)"
  let ?l2 = "fst (createAuditLog (pairedLog act pre u2 u1) ?s4)"
  from fresh have f1: "?n \<notin> fst ` set (auditLogs t)" by auto
  have a4: "auditLogs ?s4 = auditLogs t @ [(?n, ?l1)]"
    using f1 by (simp add: createAuditLog_def randomUUID_def Let_def update_fresh)
  have n4: "nextUuid ?s4 = Suc ?n" by (simp add: createAuditLog_fields)
  from fresh have f2: "Suc ?n \<notin> fst ` set (auditLogs ?s4)" by (auto simp: a4)
  have a5: "auditLogs ?s5 = auditLogs ?s4 @ [(Suc ?n, ?l2)]"
    using f2 n4 unfolding createAuditLog_def [of _ ?s4]
    by (simp add: randomUUID_def Let_def update_fresh)
  have sym: "symmetricPair act (socketId u1) (socketId u2) ?l1 ?l2"
    by (simp add: symmetricPair_def createAuditLog_def randomUUID_def Let_def pairedLog_def)
  from a4 a5 sym show ?thesis by auto
qed

lemma room_of_created:
  assumes "chatRooms t (nextUuid s) = Some room" "users room = [socketId u1, socketId u2]"
    and "userRoomMap t = userRoomMap (snd (createRoom u1 u2 s))"
  shows "map_option users (getRoomByUser (socketId u1) t) = Some [socketId u1, socketId u2]"
  using assms by (simp add: getRoomByUser_def createRoom_fields)

lemma text_pairing_audit:
  assumes len: "2 \<le> length (getWaitingUsers s)"
    and sel: "selectUsers (getWaitingUsers s) avoid = (u1, Some u2)"
    and fresh: "\<forall>k \<in> fst ` set (auditLogs s). k < nextUuid s"
  shows "pairingAudit ''paired'' s u1 u2 (tryMatchTextUsersWithPreference avoid s)"
proof (cases "findWebSocketBySocketId (socketId u1) s \<noteq> None \<and>
    findWebSocketBySocketId (socketId u2) s \<noteq> None")
  case True
  then obtain ws1 ws2 where w: "findWebSocketBySocketId (socketId u1) s = Some ws1"
      "findWebSocketBySocketId (socketId u2) s = Some ws2"
    by auto
  let ?n = "nextUuid s"
  let ?s3 = "send (ws_socketId ws2) (Paired ?n ''You have been connected to a stranger!'')
      (send (ws_socketId ws1) (Paired ?n ''You have been connected to a stranger!'')
        (snd (createRoom u1 u2 s)))"
  let ?s5 = "snd (createAuditLog (pairedLog ''paired'' ''Paired with '' u2 u1)
      (snd (createAuditLog (pairedLog ''paired'' ''Paired with '' u1 u2) ?s3)))"
  from len sel w have ret: "tryMatchTextUsersWithPreference avoid s = Returned ?s5"
    by (simp add: tryMatchTextUsersWithPreference_def case_prod_beta findWebSocket_fields
        createRoom_fields Let_def)
  from fresh have "\<forall>k \<in> fst ` set (auditLogs ?s3). k < nextUuid ?s3"
    by (auto simp: send_fields createRoom_fields)
  from two_audits [OF this, of "''paired''" "''Paired with ''" u2 u1] obtain l1 l2 where
    "auditLogs ?s5 = auditLogs s @ [(Suc ?n, l1), (Suc (Suc ?n), l2)]"
    "symmetricPair ''paired'' (socketId u1) (socketId u2) l1 l2"
    by (auto simp: send_fields createRoom_fields)
  moreover have "map_option users (getRoomByUser (socketId u1) ?s5) =
      Some [socketId u1, socketId u2]"
    by (rule room_of_created [where room = "fst (createRoom u1 u2 s)"])
      (simp_all add: createAuditLog_fields send_fields createRoom_fields)
  ultimately show ?thesis using ret True by (auto simp: pairingAudit_def)
next
  case False
  with len sel have "tryMatchTextUsersWithPreference avoid s = Returned (snd (createRoom u1 u2 s))"
    by (auto simp: tryMatchTextUsersWithPreference_def case_prod_beta findWebSocket_fields
        split: option.splits)
  moreover have "map_option users (getRoomByUser (socketId u1) (snd (createRoom u1 u2 s))) =
      Some [socketId u1, socketId u2]"
    by (rule room_of_created [where room = "fst (createRoom u1 u2 s)"])
      (simp_all add: createRoom_fields)
  ultimately show ?thesis using False by (simp add: pairingAudit_def createRoom_fields)
qed

lemma video_pairing_audit:
  assumes len: "2 \<le> length (getWaitingVideoUsers s)"
    and sel: "selectUsers (getWaitingVideoUsers s) avoid = (u1, Some u2)"
    and fresh: "\<forall>k \<in> fst ` set (auditLogs s). k < nextUuid s"
  shows "pairingAudit ''video_paired'' s u1 u2 (tryMatchVideoUsersWithPreference avoid s)"
proof -
  let ?n = "nextUuid s"
  let ?c = "snd (createRoom u1 u2 s)"
  let ?room = "(fst (createRoom u1 u2 s))\<lparr>isVideoCall := Some True\<rparr>"
  let ?s1 = "?c\<lparr>chatRooms := (chatRooms ?c)(?n \<mapsto> ?room)\<rparr>"
  show ?thesis
  proof (cases "findWebSocketBySocketId (socketId u1) s \<noteq> None \<and>
      findWebSocketBySocketId (socketId u2) s \<noteq> None")
    case True
    then obtain ws1 ws2 where w: "findWebSocketBySocketId (socketId u1) s = Some ws1"
        "findWebSocketBySocketId (socketId u2) s = Some ws2"
      by auto
    let ?s3 = "send (ws_socketId ws2)
        (VideoPaired ?n False ''Connected for video chat! Preparing video...'')
        (send (ws_socketId ws1)
          (VideoPaired ?n True ''Connected for video chat! Preparing video...'') ?s1)"
    let ?s5 = "snd (createAuditLog (pairedLog ''video_paired'' ''Video paired with '' u2 u1)
        (snd (createAuditLog (pairedLog ''video_paired'' ''Video paired with '' u1 u2) ?s3)))"
    from len sel w have ret: "tryMatchVideoUsersWithPreference avoid s = Returned ?s5"
      by (simp add: tryMatchVideoUsersWithPreference_def case_prod_beta
          findWebSocketBySocketId_def createRoom_fields Let_def)
    from fresh have "\<forall>k \<in> fst ` set (auditLogs ?s3). k < nextUuid ?s3"
      by (auto simp: send_fields createRoom_fields)
    from two_audits [OF this, of "''video_paired''" "''Video paired with ''" u2 u1]
    obtain l1 l2 where
      "auditLogs ?s5 = auditLogs s @ [(Suc ?n, l1), (Suc (Suc ?n), l2)]"
      "symmetricPair ''video_paired'' (socketId u1) (socketId u2) l1 l2"
      by (auto simp: send_fields createRoom_fields)
    moreover have "map_option users (getRoomByUser (socketId u1) ?s5) =
        Some [socketId u1, socketId u2]"
      by (rule room_of_created [where room = ?room])
        (simp_all add: createAuditLog_fields send_fields createRoom_fields)
    ultimately show ?thesis using ret True by (auto simp: pairingAudit_def)
  next
    case False
    with len sel have "tryMatchVideoUsersWithPreference avoid s = Returned ?s1"
      by (auto simp: tryMatchVideoUsersWithPreference_def case_prod_beta
          findWebSocketBySocketId_def createRoom_fields Let_def split: option.splits)
    moreover have "map_option users (getRoomByUser (socketId u1) ?s1) =
        Some [socketId u1, socketId u2]"
      by (rule room_of_created [where room = ?room]) (simp_all add: createRoom_fields)
    ultimately show ?thesis using False by (simp add: pairingAudit_def createRoom_fields)
  qed
qed

text \<open>
  C8, amended. When a matcher, text or video, pairs two users (the stored audit
  identifiers having been drawn from the generator before), it creates their room; if
  it finds the sockets of both open, it appends exactly two audit records, one per
  participant, with the action of the pairing and the other participant as partner; if
  the socket of either is not found open, it writes no audit record.
\<close>

theorem pairing_audited:
  assumes fresh: "\<forall>k \<in> fst ` set (auditLogs s). k < nextUuid s"
  shows "(2 \<le> length (getWaitingUsers s) \<and>
          selectUsers (getWaitingUsers s) avoid = (u1, Some u2) \<longrightarrow>
            pairingAudit ''paired'' s u1 u2 (tryMatchTextUsersWithPreference avoid s)) \<and>
         (2 \<le> length (getWaitingVideoUsers s) \<and>
          selectUsers (getWaitingVideoUsers s) avoid = (u1, Some u2) \<longrightarrow>
            pairingAudit ''video_paired'' s u1 u2 (tryMatchVideoUsersWithPreference avoid s))"
  using text_pairing_audit [OF _ _ fresh] video_pairing_audit [OF _ _ fresh] by blast

theorem pairing_audited_witness:
  "auditLogs fourWaiting = [] \<and>
   2 \<le> length (getWaitingUsers fourWaiting) \<and>
   selectUsers (getWaitingUsers fourWaiting) [] = (userOf 1, Some (userOf 2)) \<and>
   findWebSocketBySocketId 1 fourWaiting \<noteq> None \<and>
   findWebSocketBySocketId 2 fourWaiting \<noteq> None \<and>
   (\<exists>s' l1 l2. tryMatchTextUsersWithPreference [] fourWaiting = Returned s' \<and>
      auditLogs s' = [(1, l1), (2, l2)] \<and> symmetricPair ''paired'' 1 2 l1 l2) \<and>
   auditLogs twoWaiting = [] \<and>
   2 \<le> length (getWaitingUsers twoWaiting) \<and>
   selectUsers (getWaitingUsers twoWaiting) [] = (userOf 1, Some (userOf 2)) \<and>
   findWebSocketBySocketId 1 twoWaiting = None \<and>
   (\<exists>s'. tryMatchTextUsersWithPreference [] twoWaiting = Returned s' \<and>
      map_option users (getRoomByUser 1 s') = Some [1, 2] \<and> auditLogs s' = []) \<and>
   auditLogs videoWaiting = [] \<and>
   2 \<le> length (getWaitingVideoUsers videoWaiting) \<and>
   selectUsers (getWaitingVideoUsers videoWaiting) [] = (userOf 1, Some (userOf 2)) \<and>
   (\<exists>s' l1 l2. tryMatchVideoUsersWithPreference [] videoWaiting = Returned s' \<and>
      auditLogs s' = [(1, l1), (2, l2)] \<and> symmetricPair ''video_paired'' 1 2 l1 l2)"
proof -
  have l4: "2 \<le> length (getWaitingUsers fourWaiting)"
    and s4: "selectUsers (getWaitingUsers fourWaiting) [] = (userOf 1, Some (userOf 2))"
    and a4: "auditLogs fourWaiting = []"
    and n4: "nextUuid fourWaiting = 0"
    by (simp_all add: fourWaiting_def getWaitingUsers_def selectUsers_def initial_def)
  have w4: "findWebSocketBySocketId 1 fourWaiting \<noteq> None"
    "findWebSocketBySocketId 2 fourWaiting \<noteq> None"
    by (simp_all add: fourWaiting_def findWebSocketBySocketId_def openSocket_def)
  have f4: "\<forall>k \<in> fst ` set (auditLogs fourWaiting). k < nextUuid fourWaiting"
    by (simp add: a4)
  from pairing_audited [OF f4, of "[]" "userOf 1" "userOf 2"] l4 s4
  have "pairingAudit ''paired'' fourWaiting (userOf 1) (userOf 2)
      (tryMatchTextUsersWithPreference [] fourWaiting)"
    by blast
  then have both: "\<exists>s' l1 l2. tryMatchTextUsersWithPreference [] fourWaiting = Returned s' \<and>
      auditLogs s' = [(1, l1), (2, l2)] \<and> symmetricPair ''paired'' 1 2 l1 l2"
    using w4 by (auto simp: pairingAudit_def userOf_def a4 n4)
  have l2: "2 \<le> length (getWaitingUsers twoWaiting)"
    and s2: "selectUsers (getWaitingUsers twoWaiting) [] = (userOf 1, Some (userOf 2))"
    and a2: "auditLogs twoWaiting = []"
    by (simp_all add: twoWaiting_def getWaitingUsers_def selectUsers_def initial_def)
  have w2: "findWebSocketBySocketId 1 twoWaiting = None"
    by (simp add: twoWaiting_def findWebSocketBySocketId_def initial_def)
  have f2: "\<forall>k \<in> fst ` set (auditLogs twoWaiting). k < nextUuid twoWaiting"
    by (simp add: a2)
  from pairing_audited [OF f2, of "[]" "userOf 1" "userOf 2"] l2 s2
  have "pairingAudit ''paired'' twoWaiting (userOf 1) (userOf 2)
      (tryMatchTextUsersWithPreference [] twoWaiting)"
    by blast
  then have lone: "\<exists>s'. tryMatchTextUsersWithPreference [] twoWaiting = Returned s' \<and>
      map_option users (getRoomByUser 1 s') = Some [1, 2] \<and> auditLogs s' = []"
    using w2 by (auto simp: pairingAudit_def userOf_def a2)
  have lv: "2 \<le> length (getWaitingVideoUsers videoWaiting)"
    and sv: "selectUsers (getWaitingVideoUsers videoWaiting) [] = (userOf 1, Some (userOf 2))"
    and av: "auditLogs videoWaiting = []"
    and nv: "nextUuid videoWaiting = 0"
    by (simp_all add: videoWaiting_def getWaitingVideoUsers_def selectUsers_def initial_def)
  have wv: "findWebSocketBySocketId 1 videoWaiting \<noteq> None"
    "findWebSocketBySocketId 2 videoWaiting \<noteq> None"
    by (simp_all add: videoWaiting_def findWebSocketBySocketId_def openSocket_def)
  have fv: "\<forall>k \<in> fst ` set (auditLogs videoWaiting). k < nextUuid videoWaiting"
    by (simp add: av)
  from pairing_audited [OF fv, of "[]" "userOf 1" "userOf 2"] lv sv
  have "pairingAudit ''video_paired'' videoWaiting (userOf 1) (userOf 2)
      (tryMatchVideoUsersWithPreference [] videoWaiting)"
    by blast
  then have video: "\<exists>s' l1 l2. tryMatchVideoUsersWithPreference [] videoWaiting = Returned s' \<and>
      auditLogs s' = [(1, l1), (2, l2)] \<and> symmetricPair ''video_paired'' 1 2 l1 l2"
    using wv by (auto simp: pairingAudit_def userOf_def av nv)
  from a4 l4 s4 w4 both a2 l2 s2 w2 lone av lv sv video show ?thesis by (intro conjI)
qed

section \<open>Mutual exclusion of queues and rooms\<close>















































end
